theory Spec2Isabelle
  imports Complex_Main "HOL-Library.Word"
begin

section \<open>Values of the Python runtime\<close>

text \<open>
  The backend is Python. Byte strings are lists of octets. A \<open>str\<close> is a list of
  characters; the characters of this development are the code points below 256.
  An exception of class \<open>Exception\<close> raised by a library (PIL, numpy, OpenCV,
  EasyOCR, the upload stream) is identified with its message \<open>str(e)\<close>, and an
  operation that may raise returns \<open>string + 'a\<close> with \<open>Inl\<close> for the raise.
\<close>

type_synonym bytes = "8 word list"

text \<open>
  Floating-point arithmetic is not interpreted: the four operations that
  \<open>_extract_text\<close> applies to doubles are parameters of the model, over an
  arbitrary carrier \<open>'f\<close>.
\<close>

record 'f float_ops =
  f_of_int :: "int \<Rightarrow> 'f"
  f_add :: "'f \<Rightarrow> 'f \<Rightarrow> 'f"
  f_div :: "'f \<Rightarrow> 'f \<Rightarrow> 'f"
  f_round :: "'f \<Rightarrow> int \<Rightarrow> 'f"

datatype 'f number = PyInt int | PyFloat 'f

fun to_float :: "'f float_ops \<Rightarrow> 'f number \<Rightarrow> 'f" where
  "to_float fo (PyInt i) = f_of_int fo i"
| "to_float fo (PyFloat x) = x"

text \<open>\<open>a + b\<close>: integer addition on two ints, float addition otherwise.\<close>

fun py_add :: "'f float_ops \<Rightarrow> 'f number \<Rightarrow> 'f number \<Rightarrow> 'f number" where
  "py_add fo (PyInt a) (PyInt b) = PyInt (a + b)"
| "py_add fo a b = PyFloat (f_add fo (to_float fo a) (to_float fo b))"

text \<open>\<open>sum(xs)\<close> starts from the int \<open>0\<close> and adds from the left.\<close>

definition py_sum :: "'f float_ops \<Rightarrow> 'f number list \<Rightarrow> 'f number" where
  "py_sum fo xs = foldl (py_add fo) (PyInt 0) xs"

text \<open>\<open>a / n\<close> for an int \<open>n\<close>: true division, ZeroDivisionError when \<open>n\<close> is 0.\<close>

definition py_truediv :: "'f float_ops \<Rightarrow> 'f number \<Rightarrow> int \<Rightarrow> string + 'f number" where
  "py_truediv fo a n =
     (if n = 0 then
        (case a of PyInt _ \<Rightarrow> Inl ''division by zero''
                 | PyFloat _ \<Rightarrow> Inl ''float division by zero'')
      else Inr (PyFloat (f_div fo (to_float fo a) (f_of_int fo n))))"

text \<open>\<open>round(x, ndigits)\<close> with \<open>ndigits\<close> not negative: an int is returned as it is.\<close>

fun py_round :: "'f float_ops \<Rightarrow> 'f number \<Rightarrow> int \<Rightarrow> 'f number" where
  "py_round fo (PyInt i) nd = PyInt i"
| "py_round fo (PyFloat x) nd = PyFloat (f_round fo x nd)"

subsection \<open>Strings\<close>

text \<open>\<open>sep.join(xs)\<close>.\<close>

fun join :: "string \<Rightarrow> string list \<Rightarrow> string" where
  "join sep [] = []"
| "join sep [x] = x"
| "join sep (x # y # ys) = x @ sep @ join sep (y # ys)"

text \<open>
  \<open>str.isspace\<close> on one character, for the code points below 256: tab, line feed,
  vertical tab, form feed, carriage return, the separators 28 to 31, space, NEL (133)
  and the no-break space (160).
\<close>

definition isspace :: "char \<Rightarrow> bool" where
  "isspace c = (let n = (of_char c :: nat) in
     (9 \<le> n \<and> n \<le> 13) \<or> (28 \<le> n \<and> n \<le> 32) \<or> n = 133 \<or> n = 160)"

text \<open>\<open>s.strip()\<close>: whitespace removed at both ends.\<close>

definition strip :: "string \<Rightarrow> string" where
  "strip s = rev (dropWhile isspace (rev (dropWhile isspace s)))"

text \<open>\<open>str(n)\<close> for an int that is not negative, as the f-string of \<open>image_size\<close> prints it.\<close>

definition digit_char :: "nat \<Rightarrow> char" where
  "digit_char d = char_of (48 + d)"

fun str_nat :: "nat \<Rightarrow> string" where
  "str_nat n = (if n < 10 then [digit_char n] else str_nat (n div 10) @ [digit_char (n mod 10)])"

declare str_nat.simps [simp del]

section \<open>External libraries\<close>

text \<open>
  PIL images, numpy arrays and the OpenCV and PIL operations the service calls.
  The libraries are not part of the repository: their functions are fields of a record
  that every operation of the service receives.
\<close>

record pil_image =
  format :: "string option"
  size_px :: "nat \<times> nat"
  mode :: string
  pixels :: bytes

record ndarray =
  shape :: "nat list"
  elems :: bytes

datatype color_code = COLOR_RGB2GRAY | COLOR_RGB2BGR | COLOR_GRAY2BGR

record libs =
  Image_open :: "bytes \<Rightarrow> string + pil_image"
  verify :: "pil_image \<Rightarrow> string + unit"
  convert :: "pil_image \<Rightarrow> string \<Rightarrow> string + pil_image"
  np_array :: "pil_image \<Rightarrow> string + ndarray"
  cvtColor :: "ndarray \<Rightarrow> color_code \<Rightarrow> string + ndarray"
  medianBlur :: "ndarray \<Rightarrow> nat \<Rightarrow> string + ndarray"

text \<open>One element of \<open>readtext\<close>'s result: \<open>(bbox, text, confidence)\<close>.\<close>

type_synonym bbox = "(int \<times> int) list"
type_synonym 'f hit = "bbox \<times> string \<times> 'f"

record 'f easyocr_reader =
  readtext :: "ndarray \<Rightarrow> string + 'f hit list"

section \<open>core/security.py\<close>

definition supported_types :: "string list" where
  "supported_types = [''image/png'', ''image/jpeg'', ''image/jpg'']"

definition validate_image_content_type :: "string \<Rightarrow> bool" where
  "validate_image_content_type content_type \<longleftrightarrow> content_type \<in> set supported_types"

definition validate_file_size :: "bytes \<Rightarrow> int \<Rightarrow> bool" where
  "validate_file_size content max_size_mb =
     (let max_size = max_size_mb * 1024 * 1024 in int (length content) \<le> max_size)"

section \<open>utils/image_processor.py\<close>

text \<open>The body of the \<open>try\<close> of \<open>ImageProcessor.preprocess\<close>.\<close>

definition preprocess_try :: "libs \<Rightarrow> ndarray \<Rightarrow> string + ndarray" where
  "preprocess_try L img =
     (case (if length (shape img) = 3 then cvtColor L img COLOR_RGB2GRAY else Inr img) of
        Inl e \<Rightarrow> Inl e
      | Inr gray \<Rightarrow> medianBlur L gray 3)"

text \<open>\<open>except Exception\<close>: the input image is returned.\<close>

definition preprocess :: "libs \<Rightarrow> ndarray \<Rightarrow> string + ndarray" where
  "preprocess L img =
     (case preprocess_try L img of
        Inl e \<Rightarrow> Inr img
      | Inr denoised \<Rightarrow> Inr denoised)"

section \<open>models/schemas.py and the result dictionary\<close>

text \<open>
  The dictionaries built by \<open>OCRService\<close> have the keys of \<open>OCRResponse\<close>; a key
  that is missing and a key bound to \<open>None\<close> both read \<open>None\<close>, as they do once
  \<open>OCRResponse(**result)\<close> has filled the defaults. The confidence of a dictionary
  is a Python number, that of an \<open>OCRResponse\<close> a float.
\<close>

record 'n ocr_result =
  success :: bool
  text_str :: string
  confidence :: "'n option"
  word_count :: "int option"
  error :: "string option"
  image_format :: "string option"
  image_size :: "string option"

definition OCRResponse :: "'f float_ops \<Rightarrow> 'f number ocr_result \<Rightarrow> 'f ocr_result" where
  "OCRResponse fo d =
     \<lparr>success = success d, text_str = text_str d,
      confidence = map_option (to_float fo) (confidence d),
      word_count = word_count d, error = error d,
      image_format = image_format d, image_size = image_size d\<rparr>"

section \<open>services/ocr_services.py\<close>

record 'f ocr_service =
  reader :: "'f easyocr_reader option"

text \<open>\<open>_initialize_ocr\<close>, given the outcome of \<open>easyocr.Reader(...)\<close>.\<close>

definition initialize_ocr :: "string + 'f easyocr_reader \<Rightarrow> 'f ocr_service" where
  "initialize_ocr made =
     (case made of Inl e \<Rightarrow> \<lparr>reader = None\<rparr> | Inr r \<Rightarrow> \<lparr>reader = Some r\<rparr>)"

definition is_healthy :: "'f ocr_service \<Rightarrow> bool" where
  "is_healthy srv \<longleftrightarrow> reader srv \<noteq> None"

definition validate_image :: "libs \<Rightarrow> bytes \<Rightarrow> bool" where
  "validate_image L contents =
     (case Image_open L contents of
        Inl e \<Rightarrow> False
      | Inr img \<Rightarrow> (case verify L img of Inl e \<Rightarrow> False | Inr _ \<Rightarrow> True))"

definition hit_text :: "'f hit \<Rightarrow> string" where
  "hit_text h = fst (snd h)"

definition hit_confidence :: "'f hit \<Rightarrow> 'f" where
  "hit_confidence h = snd (snd h)"

text \<open>The \<open>for\<close> loop of \<open>_extract_text\<close>: both lists grow at the end.\<close>

fun collect :: "'f hit list \<Rightarrow> string list \<Rightarrow> 'f list \<Rightarrow> string list \<times> 'f list" where
  "collect [] extracted_text confidences = (extracted_text, confidences)"
| "collect ((bbox, text, conf) # results) extracted_text confidences =
     collect results (extracted_text @ [text]) (confidences @ [conf])"

text \<open>The statements of \<open>_extract_text\<close> after the call of the engine.\<close>

definition aggregate :: "'f float_ops \<Rightarrow> 'f hit list \<Rightarrow> string + 'f number ocr_result" where
  "aggregate fo results =
     (case collect results [] [] of (extracted_text, confidences) \<Rightarrow>
        let full_text = join '' '' extracted_text in
        (case (if confidences \<noteq> []
               then py_truediv fo (py_sum fo (map PyFloat confidences)) (int (length confidences))
               else Inr (PyInt 0)) of
           Inl e \<Rightarrow> Inl e
         | Inr avg_confidence \<Rightarrow>
             Inr \<lparr>success = True, text_str = strip full_text,
                  confidence = Some (py_round fo avg_confidence 3),
                  word_count = Some (int (length extracted_text)),
                  error = None, image_format = None, image_size = None\<rparr>))"

definition failed :: "string \<Rightarrow> 'n ocr_result" where
  "failed msg =
     \<lparr>success = False, text_str = '''', confidence = None, word_count = None,
      error = Some msg, image_format = None, image_size = None\<rparr>"

text \<open>The conversion to BGR at the head of \<open>_extract_text\<close>.\<close>

definition bgr_input :: "libs \<Rightarrow> ndarray \<Rightarrow> string + ndarray" where
  "bgr_input L img =
     (if length (shape img) = 3 then cvtColor L img COLOR_RGB2BGR
      else cvtColor L img COLOR_GRAY2BGR)"

text \<open>The message of the AttributeError of \<open>None.readtext\<close>.\<close>

definition attribute_error :: string where
  "attribute_error =
     CHR 0x27 # ''NoneType'' @ CHR 0x27 # '' object has no attribute '' @ CHR 0x27 # ''readtext'' @ [CHR 0x27]"

text \<open>
  The body of the \<open>try\<close> of \<open>_extract_text\<close>. The second component lists the
  arrays handed to the engine's \<open>readtext\<close>, in order. With no reader the attribute
  access on \<open>None\<close> raises.
\<close>

definition extract_text_try ::
  "'f float_ops \<Rightarrow> libs \<Rightarrow> 'f ocr_service \<Rightarrow> ndarray \<Rightarrow> (string + 'f number ocr_result) \<times> ndarray list" where
  "extract_text_try fo L srv img =
     (case bgr_input L img of
        Inl e \<Rightarrow> (Inl e, [])
      | Inr image_bgr \<Rightarrow>
          (case reader srv of
             None \<Rightarrow> (Inl attribute_error, [])
           | Some rd \<Rightarrow>
               (case readtext rd image_bgr of
                  Inl e \<Rightarrow> (Inl e, [image_bgr])
                | Inr results \<Rightarrow> (aggregate fo results, [image_bgr]))))"

definition extract_text ::
  "'f float_ops \<Rightarrow> libs \<Rightarrow> 'f ocr_service \<Rightarrow> ndarray \<Rightarrow> 'f number ocr_result \<times> ndarray list" where
  "extract_text fo L srv img =
     (case extract_text_try fo L srv img of
        (Inl e, calls) \<Rightarrow> (failed (''OCR processing failed: '' @ e), calls)
      | (Inr result, calls) \<Rightarrow> (result, calls))"

text \<open>The body of the \<open>try\<close> of \<open>process_image\<close>.\<close>

definition process_image_try ::
  "'f float_ops \<Rightarrow> libs \<Rightarrow> 'f ocr_service \<Rightarrow> bytes \<Rightarrow> (string + 'f number ocr_result) \<times> ndarray list" where
  "process_image_try fo L srv contents =
     (case Image_open L contents of
        Inl e \<Rightarrow> (Inl e, [])
      | Inr pil_image \<Rightarrow>
          let image_format = format pil_image;
              image_size = str_nat (fst (size_px pil_image)) @ ''x'' @ str_nat (snd (size_px pil_image))
          in
          (case (if mode pil_image \<noteq> ''RGB'' then convert L pil_image ''RGB'' else Inr pil_image) of
             Inl e \<Rightarrow> (Inl e, [])
           | Inr rgb_image \<Rightarrow>
               (case np_array L rgb_image of
                  Inl e \<Rightarrow> (Inl e, [])
                | Inr image_np \<Rightarrow>
                    (case preprocess L image_np of
                       Inl e \<Rightarrow> (Inl e, [])
                     | Inr processed_image \<Rightarrow>
                         (case extract_text fo L srv processed_image of
                            (result, calls) \<Rightarrow>
                              (Inr (result\<lparr>image_format := image_format,
                                           image_size := Some image_size\<rparr>), calls))))))"

definition process_image ::
  "'f float_ops \<Rightarrow> libs \<Rightarrow> 'f ocr_service \<Rightarrow> bytes \<Rightarrow> 'f number ocr_result \<times> ndarray list" where
  "process_image fo L srv contents =
     (if \<not> is_healthy srv then (failed ''OCR engine not available'', [])
      else
        (case process_image_try fo L srv contents of
           (Inl e, calls) \<Rightarrow> (failed (''Image processing failed: '' @ e), calls)
         | (Inr result, calls) \<Rightarrow> (result, calls)))"

section \<open>api/routes.py\<close>

text \<open>
  An upload: the content type its part declares (it may be missing) and the outcome of
  \<open>await image.read()\<close>.
\<close>

record upload_file =
  content_type :: "string option"
  read :: "string + bytes"

datatype exn = HTTPException nat string | Exception string

definition health_status :: "'f ocr_service \<Rightarrow> string" where
  "health_status srv = (if is_healthy srv then ''healthy'' else ''unhealthy'')"

text \<open>The body of the \<open>try\<close> of \<open>predict\<close>.\<close>

definition predict_try ::
  "'f float_ops \<Rightarrow> libs \<Rightarrow> 'f ocr_service \<Rightarrow> upload_file \<Rightarrow> (exn + 'f ocr_result) \<times> ndarray list" where
  "predict_try fo L srv img =
     (case read img of
        Inl e \<Rightarrow> (Inl (Exception e), [])
      | Inr contents \<Rightarrow>
          if \<not> validate_file_size contents 10 then
            (Inl (HTTPException 400 ''File size too large. Maximum size is 10MB''), [])
          else if \<not> validate_image L contents then
            (Inl (HTTPException 400 ''Invalid image file''), [])
          else
            (case process_image fo L srv contents of
               (result, calls) \<Rightarrow> (Inr (OCRResponse fo result), calls)))"

text \<open>
  \<open>predict\<close>: the two guards, then the \<open>try\<close> with its handlers; an
  \<open>HTTPException\<close> is raised again, any other exception becomes a 500. A missing
  content type is not in the list of supported types.
\<close>

definition predict ::
  "'f float_ops \<Rightarrow> libs \<Rightarrow> 'f ocr_service \<Rightarrow> upload_file \<Rightarrow> (exn + 'f ocr_result) \<times> ndarray list" where
  "predict fo L srv img =
     (if \<not> (case content_type img of None \<Rightarrow> False
                | Some ct \<Rightarrow> validate_image_content_type ct) then
        (Inl (HTTPException 400 ''File must be a supported image type (PNG, JPG, JPEG)''), [])
      else if \<not> is_healthy srv then
        (Inl (HTTPException 503 ''OCR service temporarily unavailable''), [])
      else
        (case predict_try fo L srv img of
           (Inl (HTTPException code detail), calls) \<Rightarrow> (Inl (HTTPException code detail), calls)
         | (Inl (Exception e), calls) \<Rightarrow>
             (Inl (HTTPException 500 (''Internal server error: '' @ e)), calls)
         | (Inr response, calls) \<Rightarrow> (Inr response, calls)))"

section \<open>Concrete inputs\<close>

text \<open>
  A stand-in for the libraries, the engine and the doubles, on which the model runs on
  concrete inputs: exact rationals with rounding to even, a decoder that knows two
  signatures, and an engine that reports two regions.
\<close>

definition round_half_even :: "rat \<Rightarrow> int" where
  "round_half_even y =
     (let f = \<lfloor>y\<rfloor>; d = y - of_int f in
      if d < 1 / 2 then f else if 1 / 2 < d then f + 1 else if even f then f else f + 1)"

definition exact_ops :: "rat float_ops" where
  "exact_ops =
     \<lparr>f_of_int = of_int, f_add = (+), f_div = (/),
      f_round = (\<lambda>x nd. of_int (round_half_even (x * 10 ^ nat nd)) / 10 ^ nat nd)\<rparr>"

definition gif_bytes :: bytes where
  "gif_bytes = [0x47, 0x49, 0x46, 0x38, 0x39, 0x61, 7, 9]"

definition png_bytes :: bytes where
  "png_bytes = [0x89, 0x50, 0x4E, 0x47, 1, 2, 3, 4, 5, 6]"

definition demo_libs :: libs where
  "demo_libs =
     \<lparr>Image_open = (\<lambda>c.
        if take 4 c = [0x89, 0x50, 0x4E, 0x47] then
          Inr \<lparr>format = Some ''PNG'', size_px = (2, 1), mode = ''RGB'', pixels = drop 4 c\<rparr>
        else if take 3 c = [0x47, 0x49, 0x46] then
          Inr \<lparr>format = Some ''GIF'', size_px = (12, 1), mode = ''P'', pixels = drop 6 c\<rparr>
        else Inl ''cannot identify image file''),
      verify = (\<lambda>im. Inr ()),
      convert = (\<lambda>im m. Inr (im\<lparr>format := None, mode := m\<rparr>)),
      np_array = (\<lambda>im. Inr \<lparr>shape = [snd (size_px im), fst (size_px im), 3], elems = pixels im\<rparr>),
      cvtColor = (\<lambda>a code.
        case code of
          COLOR_RGB2GRAY \<Rightarrow> Inr \<lparr>shape = take 2 (shape a), elems = elems a\<rparr>
        | COLOR_RGB2BGR \<Rightarrow> Inr \<lparr>shape = shape a, elems = rev (elems a)\<rparr>
        | COLOR_GRAY2BGR \<Rightarrow> Inr \<lparr>shape = shape a @ [3], elems = elems a\<rparr>),
      medianBlur = (\<lambda>a k. Inr a)\<rparr>"

definition demo_hits :: "rat hit list" where
  "demo_hits = [([(0, 0), (5, 0), (5, 2), (0, 2)], ''HELLO'', 1 / 2),
                ([(6, 0), (11, 0), (11, 2), (6, 2)], ''WORLD '', 1 / 4)]"

definition demo_service :: "rat ocr_service" where
  "demo_service = \<lparr>reader = Some \<lparr>readtext = (\<lambda>a. Inr demo_hits)\<rparr>\<rparr>"

definition blank_service :: "rat ocr_service" where
  "blank_service = \<lparr>reader = Some \<lparr>readtext = (\<lambda>a. Inr [])\<rparr>\<rparr>"

definition broken_cv :: libs where
  "broken_cv = demo_libs\<lparr>cvtColor := (\<lambda>a code. Inl ''Invalid number of channels in input image''),
                         medianBlur := (\<lambda>a k. Inl ''Unsupported format'')\<rparr>"

section \<open>The loop and the aggregation\<close>

lemma collect_eq:
  "collect rs et cs = (et @ map hit_text rs, cs @ map hit_confidence rs)"
  by (induction rs et cs rule: collect.induct) (simp_all add: hit_text_def hit_confidence_def)

lemma aggregate_eq:
  "aggregate fo hits =
     Inr \<lparr>success = True, text_str = strip (join '' '' (map hit_text hits)),
          confidence = Some (if hits = [] then PyInt 0
             else py_round fo (PyFloat (f_div fo
                    (to_float fo (py_sum fo (map PyFloat (map hit_confidence hits))))
                    (f_of_int fo (int (length hits))))) 3),
          word_count = Some (int (length hits)),
          error = None, image_format = None, image_size = None\<rparr>"
  by (simp add: aggregate_def collect_eq py_truediv_def)

lemma extract_text_hits:
  assumes "reader srv = Some rd" and "bgr_input L img = Inr bgr" and "readtext rd bgr = Inr hits"
  shows "extract_text fo L srv img =
     (\<lparr>success = True, text_str = strip (join '' '' (map hit_text hits)),
          confidence = Some (if hits = [] then PyInt 0
             else py_round fo (PyFloat (f_div fo
                    (to_float fo (py_sum fo (map PyFloat (map hit_confidence hits))))
                    (f_of_int fo (int (length hits))))) 3),
          word_count = Some (int (length hits)),
          error = None, image_format = None, image_size = None\<rparr>, [bgr])"
  using assms by (simp add: extract_text_def extract_text_try_def aggregate_eq)

text \<open>
  C3: when the engine returns a sequence of hits, the text of the result of
  \<open>_extract_text\<close> is the texts of the hits, in the order the engine gave them and
  each once, joined with one space, with the whitespace at both ends of the joined
  string removed.
\<close>

theorem extract_text_joins_hits:
  assumes "reader srv = Some rd" and "bgr_input L img = Inr bgr" and "readtext rd bgr = Inr hits"
  shows "text_str (fst (extract_text fo L srv img)) = strip (join '' '' (map hit_text hits))"
  by (simp add: extract_text_hits [OF assms])

theorem extract_text_joins_hits_witness:
  "reader demo_service = Some \<lparr>readtext = (\<lambda>a. Inr demo_hits)\<rparr> \<and>
   bgr_input demo_libs \<lparr>shape = [1, 2], elems = [7, 9]\<rparr> = Inr \<lparr>shape = [1, 2, 3], elems = [7, 9]\<rparr> \<and>
   readtext \<lparr>readtext = (\<lambda>a. Inr demo_hits)\<rparr> \<lparr>shape = [1, 2, 3], elems = [7, 9]\<rparr> = Inr demo_hits \<and>
   map hit_text demo_hits = [''HELLO'', ''WORLD ''] \<and>
   text_str (fst (extract_text exact_ops demo_libs demo_service \<lparr>shape = [1, 2], elems = [7, 9]\<rparr>))
     = ''HELLO WORLD''"
  using extract_text_joins_hits [of demo_service "\<lparr>readtext = (\<lambda>a. Inr demo_hits)\<rparr>" demo_libs
       "\<lparr>shape = [1, 2], elems = [7, 9]\<rparr>" "\<lparr>shape = [1, 2, 3], elems = [7, 9]\<rparr>" demo_hits exact_ops]
  by (simp add: demo_libs_def demo_service_def demo_hits_def bgr_input_def hit_text_def strip_def isspace_def)

subsection \<open>The confidence\<close>

lemma py_add_float:
  "py_add fo a (PyFloat c) = PyFloat (f_add fo (to_float fo a) c)"
  by (cases a) simp_all

lemma foldl_py_add_bounds:
  fixes fo :: "('f::preorder) float_ops"
  assumes step: "\<And>s c k. k < N \<Longrightarrow> f_of_int fo 0 \<le> s \<Longrightarrow> s \<le> f_of_int fo (int k) \<Longrightarrow>
            f_of_int fo 0 \<le> c \<Longrightarrow> c \<le> f_of_int fo 1 \<Longrightarrow>
            f_of_int fo 0 \<le> f_add fo s c \<and> f_add fo s c \<le> f_of_int fo (int k + 1)"
    and "\<forall>c \<in> set cs. f_of_int fo 0 \<le> c \<and> c \<le> f_of_int fo 1"
    and "f_of_int fo 0 \<le> to_float fo acc" and "to_float fo acc \<le> f_of_int fo (int k)"
    and "k + length cs \<le> N"
  shows "f_of_int fo 0 \<le> to_float fo (foldl (py_add fo) acc (map PyFloat cs)) \<and>
         to_float fo (foldl (py_add fo) acc (map PyFloat cs)) \<le> f_of_int fo (int (k + length cs))"
  using assms(2-)
proof (induction cs arbitrary: acc k)
  case Nil
  then show ?case by simp
next
  case (Cons c cs)
  have kN: "k < N" using Cons.prems(4) by simp
  have c: "f_of_int fo 0 \<le> c" "c \<le> f_of_int fo 1" using Cons.prems(1) by simp_all
  from step [OF kN Cons.prems(2) Cons.prems(3) c]
  have b: "f_of_int fo 0 \<le> to_float fo (py_add fo acc (PyFloat c))"
          "to_float fo (py_add fo acc (PyFloat c)) \<le> f_of_int fo (int (Suc k))"
    by (simp_all add: py_add_float add.commute)
  have "f_of_int fo 0 \<le> to_float fo (foldl (py_add fo) (py_add fo acc (PyFloat c)) (map PyFloat cs)) \<and>
        to_float fo (foldl (py_add fo) (py_add fo acc (PyFloat c)) (map PyFloat cs))
          \<le> f_of_int fo (int (Suc k + length cs))"
    using Cons.prems(1,4) by (intro Cons.IH [OF _ b]) simp_all
  then show ?case by simp
qed

lemma py_sum_bounds:
  fixes fo :: "('f::preorder) float_ops"
  assumes "\<And>s c k. k < length cs \<Longrightarrow> f_of_int fo 0 \<le> s \<Longrightarrow> s \<le> f_of_int fo (int k) \<Longrightarrow>
            f_of_int fo 0 \<le> c \<Longrightarrow> c \<le> f_of_int fo 1 \<Longrightarrow>
            f_of_int fo 0 \<le> f_add fo s c \<and> f_add fo s c \<le> f_of_int fo (int k + 1)"
    and "\<forall>c \<in> set cs. f_of_int fo 0 \<le> c \<and> c \<le> f_of_int fo 1"
  shows "f_of_int fo 0 \<le> to_float fo (py_sum fo (map PyFloat cs)) \<and>
         to_float fo (py_sum fo (map PyFloat cs)) \<le> f_of_int fo (int (length cs))"
  unfolding py_sum_def
  using foldl_py_add_bounds [where fo = fo and N = "length cs" and cs = cs and acc = "PyInt 0" and k = 0]
    assms
  by simp

lemma round_half_even_bounds:
  assumes "0 \<le> y" and "y \<le> of_int n"
  shows "0 \<le> round_half_even y \<and> round_half_even y \<le> n"
proof -
  have f0: "0 \<le> \<lfloor>y\<rfloor>" using assms(1) by simp
  have fn: "\<lfloor>y\<rfloor> \<le> n" using assms(2) by (simp add: floor_le_iff)
  have lt: "\<lfloor>y\<rfloor> < n" if "0 < y - of_int \<lfloor>y\<rfloor>"
  proof -
    from that have "of_int \<lfloor>y\<rfloor> < y" by simp
    with assms(2) have "(of_int \<lfloor>y\<rfloor> :: rat) < of_int n" by simp
    then show ?thesis by simp
  qed
  show ?thesis
    using f0 fn lt by (auto simp: round_half_even_def Let_def)
qed

text \<open>
  C4: when the engine returns a sequence of hits that is not empty, the confidence of the
  result of \<open>_extract_text\<close> is the mean of the confidences of the hits, their sum
  from the left divided by their number, rounded to 3 decimal places, in the arithmetic
  of the floats; with no hit it is 0. Whenever every confidence of a hit lies between 0
  and 1 so does the confidence of the result, for every arithmetic in which adding a
  value of that range to a partial sum of \<open>k\<close> such values stays between 0 and
  \<open>k + 1\<close>, dividing a value between 0 and \<open>n\<close> by \<open>n\<close> stays between 0 and
  1, and rounding a value between 0 and 1 stays there.
\<close>

theorem extract_text_confidence:
  fixes fo :: "('f::preorder) float_ops"
  assumes "reader srv = Some rd" and "bgr_input L img = Inr bgr" and "readtext rd bgr = Inr hits"
  shows
   "(hits \<noteq> [] \<longrightarrow>
       confidence (fst (extract_text fo L srv img)) =
         Some (PyFloat (f_round fo
           (f_div fo (to_float fo (py_sum fo (map PyFloat (map hit_confidence hits))))
                     (f_of_int fo (int (length hits)))) 3))) \<and>
    (hits = [] \<longrightarrow>
       confidence (fst (extract_text fo L srv img)) = Some (PyInt 0) \<and>
       confidence (OCRResponse fo (fst (extract_text fo L srv img))) = Some (f_of_int fo 0)) \<and>
    (f_of_int fo 0 \<le> f_of_int fo 1 \<and>
     (\<forall>s c k. k < length hits \<and> f_of_int fo 0 \<le> s \<and> s \<le> f_of_int fo (int k) \<and>
        f_of_int fo 0 \<le> c \<and> c \<le> f_of_int fo 1 \<longrightarrow>
        f_of_int fo 0 \<le> f_add fo s c \<and> f_add fo s c \<le> f_of_int fo (int k + 1)) \<and>
     (\<forall>s. f_of_int fo 0 \<le> s \<and> s \<le> f_of_int fo (int (length hits)) \<longrightarrow>
        f_of_int fo 0 \<le> f_div fo s (f_of_int fo (int (length hits))) \<and>
        f_div fo s (f_of_int fo (int (length hits))) \<le> f_of_int fo 1) \<and>
     (\<forall>x. f_of_int fo 0 \<le> x \<and> x \<le> f_of_int fo 1 \<longrightarrow>
        f_of_int fo 0 \<le> f_round fo x 3 \<and> f_round fo x 3 \<le> f_of_int fo 1) \<and>
     (\<forall>h \<in> set hits. f_of_int fo 0 \<le> hit_confidence h \<and> hit_confidence h \<le> f_of_int fo 1) \<longrightarrow>
     (\<exists>c. confidence (OCRResponse fo (fst (extract_text fo L srv img))) = Some c \<and>
          f_of_int fo 0 \<le> c \<and> c \<le> f_of_int fo 1))"
proof (intro conjI impI)
  assume "hits \<noteq> []"
  then show "confidence (fst (extract_text fo L srv img)) =
         Some (PyFloat (f_round fo
           (f_div fo (to_float fo (py_sum fo (map PyFloat (map hit_confidence hits))))
                     (f_of_int fo (int (length hits)))) 3))"
    by (simp add: extract_text_hits [OF assms])
next
  assume "hits = []"
  then show "confidence (fst (extract_text fo L srv img)) = Some (PyInt 0)"
    by (simp add: extract_text_hits [OF assms])
next
  assume "hits = []"
  then show "confidence (OCRResponse fo (fst (extract_text fo L srv img))) = Some (f_of_int fo 0)"
    by (simp add: extract_text_hits [OF assms] OCRResponse_def)
next
  let ?z = "f_of_int fo 0" and ?u = "f_of_int fo 1"
  let ?cs = "map hit_confidence hits"
  let ?s = "to_float fo (py_sum fo (map PyFloat ?cs))"
  assume H: "?z \<le> ?u \<and>
     (\<forall>s c k. k < length hits \<and> ?z \<le> s \<and> s \<le> f_of_int fo (int k) \<and> ?z \<le> c \<and> c \<le> ?u \<longrightarrow>
        ?z \<le> f_add fo s c \<and> f_add fo s c \<le> f_of_int fo (int k + 1)) \<and>
     (\<forall>s. ?z \<le> s \<and> s \<le> f_of_int fo (int (length hits)) \<longrightarrow>
        ?z \<le> f_div fo s (f_of_int fo (int (length hits))) \<and>
        f_div fo s (f_of_int fo (int (length hits))) \<le> ?u) \<and>
     (\<forall>x. ?z \<le> x \<and> x \<le> ?u \<longrightarrow> ?z \<le> f_round fo x 3 \<and> f_round fo x 3 \<le> ?u) \<and>
     (\<forall>h \<in> set hits. ?z \<le> hit_confidence h \<and> hit_confidence h \<le> ?u)"
  show "\<exists>c. confidence (OCRResponse fo (fst (extract_text fo L srv img))) = Some c \<and> ?z \<le> c \<and> c \<le> ?u"
  proof (cases "hits = []")
    case True
    with H show ?thesis
      by (simp add: extract_text_hits [OF assms] OCRResponse_def)
  next
    case False
    have sum: "?z \<le> ?s \<and> ?s \<le> f_of_int fo (int (length ?cs))"
      using H by (intro py_sum_bounds) auto
    then have "?z \<le> f_div fo ?s (f_of_int fo (int (length hits))) \<and>
               f_div fo ?s (f_of_int fo (int (length hits))) \<le> ?u"
      using H by simp
    then have "?z \<le> f_round fo (f_div fo ?s (f_of_int fo (int (length hits)))) 3 \<and>
               f_round fo (f_div fo ?s (f_of_int fo (int (length hits)))) 3 \<le> ?u"
      using H by blast
    with False show ?thesis
      by (simp add: extract_text_hits [OF assms] OCRResponse_def)
  qed
qed

theorem extract_text_confidence_witness:
  "reader demo_service = Some \<lparr>readtext = (\<lambda>a. Inr demo_hits)\<rparr> \<and>
   bgr_input demo_libs \<lparr>shape = [1, 2], elems = [7, 9]\<rparr> = Inr \<lparr>shape = [1, 2, 3], elems = [7, 9]\<rparr> \<and>
   readtext \<lparr>readtext = (\<lambda>a. Inr demo_hits)\<rparr> \<lparr>shape = [1, 2, 3], elems = [7, 9]\<rparr> = Inr demo_hits \<and>
   map hit_confidence demo_hits = [1 / 2, 1 / 4] \<and>
   confidence (fst (extract_text exact_ops demo_libs demo_service \<lparr>shape = [1, 2], elems = [7, 9]\<rparr>))
     = Some (PyFloat (3 / 8)) \<and>
   (\<exists>c. confidence (OCRResponse exact_ops
            (fst (extract_text exact_ops demo_libs demo_service \<lparr>shape = [1, 2], elems = [7, 9]\<rparr>))) = Some c \<and>
        0 \<le> c \<and> c \<le> 1)"
proof -
  let ?img = "\<lparr>shape = [1, 2], elems = [7, 9]\<rparr>"
  let ?bgr = "\<lparr>shape = [1, 2, 3], elems = [7, 9]\<rparr>"
  let ?z = "f_of_int exact_ops 0" and ?u = "f_of_int exact_ops 1"
  have h1: "reader demo_service = Some \<lparr>readtext = (\<lambda>a. Inr demo_hits)\<rparr>"
    by (simp add: demo_service_def)
  have h2: "bgr_input demo_libs ?img = Inr ?bgr"
    by (simp add: bgr_input_def demo_libs_def)
  have h3: "readtext \<lparr>readtext = (\<lambda>a. Inr demo_hits)\<rparr> ?bgr = Inr demo_hits"
    by simp
  have ne: "demo_hits \<noteq> []" by (simp add: demo_hits_def)
  have cs: "map hit_confidence demo_hits = [1 / 2, 1 / 4]"
    by (simp add: demo_hits_def hit_confidence_def)
  have a0: "?z \<le> ?u" by (simp add: exact_ops_def)
  have a1: "\<forall>s c k. k < length demo_hits \<and> ?z \<le> s \<and> s \<le> f_of_int exact_ops (int k) \<and>
        ?z \<le> c \<and> c \<le> ?u \<longrightarrow>
        ?z \<le> f_add exact_ops s c \<and> f_add exact_ops s c \<le> f_of_int exact_ops (int k + 1)"
    by (simp add: exact_ops_def)
  have a2: "\<forall>s. ?z \<le> s \<and> s \<le> f_of_int exact_ops (int (length demo_hits)) \<longrightarrow>
        ?z \<le> f_div exact_ops s (f_of_int exact_ops (int (length demo_hits))) \<and>
        f_div exact_ops s (f_of_int exact_ops (int (length demo_hits))) \<le> ?u"
    by (simp add: exact_ops_def demo_hits_def)
  have a3: "\<forall>x. ?z \<le> x \<and> x \<le> ?u \<longrightarrow> ?z \<le> f_round exact_ops x 3 \<and> f_round exact_ops x 3 \<le> ?u"
  proof (intro allI impI)
    fix x :: rat
    assume "?z \<le> x \<and> x \<le> ?u"
    then have "0 \<le> x * 1000" "x * 1000 \<le> of_int 1000" by (simp_all add: exact_ops_def)
    from round_half_even_bounds [OF this]
    show "?z \<le> f_round exact_ops x 3 \<and> f_round exact_ops x 3 \<le> ?u"
      by (simp add: exact_ops_def)
  qed
  have a4: "\<forall>h \<in> set demo_hits. ?z \<le> hit_confidence h \<and> hit_confidence h \<le> ?u"
    by (simp add: demo_hits_def hit_confidence_def exact_ops_def)
  note main = extract_text_confidence [OF h1 h2 h3, of exact_ops]
  from main ne
  have "confidence (fst (extract_text exact_ops demo_libs demo_service ?img)) =
          Some (PyFloat (f_round exact_ops
            (f_div exact_ops (to_float exact_ops (py_sum exact_ops (map PyFloat (map hit_confidence demo_hits))))
                      (f_of_int exact_ops (int (length demo_hits)))) 3))"
    by blast
  moreover have "length demo_hits = 2" by (simp add: demo_hits_def)
  moreover have "round_half_even 375 = 375" by (simp add: round_half_even_def)
  ultimately
  have v: "confidence (fst (extract_text exact_ops demo_libs demo_service ?img)) = Some (PyFloat (3 / 8))"
    by (simp add: cs py_sum_def exact_ops_def)
  from main a0 a1 a2 a3 a4
  have "\<exists>c. confidence (OCRResponse exact_ops (fst (extract_text exact_ops demo_libs demo_service ?img))) = Some c \<and>
          ?z \<le> c \<and> c \<le> ?u"
    by blast
  then have b: "\<exists>c. confidence (OCRResponse exact_ops (fst (extract_text exact_ops demo_libs demo_service ?img))) = Some c \<and>
          0 \<le> c \<and> c \<le> 1"
    by (simp add: exact_ops_def)
  from h1 h2 h3 cs v b show ?thesis by simp
qed

subsection \<open>The word count and the empty result\<close>

text \<open>
  C5: when the engine returns a sequence of hits, the \<open>word_count\<close> of the result
  of \<open>_extract_text\<close> is the number of hits, that is of recognised regions, whatever
  the texts of the hits contain.
\<close>

theorem extract_text_word_count:
  assumes "reader srv = Some rd" and "bgr_input L img = Inr bgr" and "readtext rd bgr = Inr hits"
  shows "word_count (fst (extract_text fo L srv img)) = Some (int (length hits))"
  by (simp add: extract_text_hits [OF assms])

theorem extract_text_word_count_witness:
  "reader demo_service = Some \<lparr>readtext = (\<lambda>a. Inr demo_hits)\<rparr> \<and>
   bgr_input demo_libs \<lparr>shape = [1, 2], elems = [7, 9]\<rparr> = Inr \<lparr>shape = [1, 2, 3], elems = [7, 9]\<rparr> \<and>
   readtext \<lparr>readtext = (\<lambda>a. Inr demo_hits)\<rparr> \<lparr>shape = [1, 2, 3], elems = [7, 9]\<rparr> = Inr demo_hits \<and>
   length demo_hits = 2 \<and>
   word_count (fst (extract_text exact_ops demo_libs demo_service \<lparr>shape = [1, 2], elems = [7, 9]\<rparr>))
     = Some 2"
  using extract_text_word_count [of demo_service "\<lparr>readtext = (\<lambda>a. Inr demo_hits)\<rparr>" demo_libs
       "\<lparr>shape = [1, 2], elems = [7, 9]\<rparr>" "\<lparr>shape = [1, 2, 3], elems = [7, 9]\<rparr>" demo_hits exact_ops]
  by (simp add: demo_libs_def demo_service_def demo_hits_def bgr_input_def)

text \<open>
  C6: when the engine returns no hit, \<open>_extract_text\<close> returns a successful result
  with the empty text, word count 0, no error, and the confidence \<open>round(0, 3)\<close>, the
  int 0, which \<open>OCRResponse\<close> holds as the float of 0.
\<close>

theorem extract_text_no_hits:
  assumes "reader srv = Some rd" and "bgr_input L img = Inr bgr" and "readtext rd bgr = Inr []"
  shows "fst (extract_text fo L srv img) =
           \<lparr>success = True, text_str = '''', confidence = Some (PyInt 0), word_count = Some 0,
            error = None, image_format = None, image_size = None\<rparr> \<and>
         OCRResponse fo (fst (extract_text fo L srv img)) =
           \<lparr>success = True, text_str = '''', confidence = Some (f_of_int fo 0), word_count = Some 0,
            error = None, image_format = None, image_size = None\<rparr>"
  by (simp add: extract_text_hits [OF assms] strip_def OCRResponse_def)

theorem extract_text_no_hits_witness:
  "reader blank_service = Some \<lparr>readtext = (\<lambda>a. Inr [])\<rparr> \<and>
   bgr_input demo_libs \<lparr>shape = [1, 2], elems = [7, 9]\<rparr> = Inr \<lparr>shape = [1, 2, 3], elems = [7, 9]\<rparr> \<and>
   readtext \<lparr>readtext = (\<lambda>a. Inr ([] :: rat hit list))\<rparr> \<lparr>shape = [1, 2, 3], elems = [7, 9]\<rparr> = Inr [] \<and>
   OCRResponse exact_ops (fst (extract_text exact_ops demo_libs blank_service \<lparr>shape = [1, 2], elems = [7, 9]\<rparr>)) =
     \<lparr>success = True, text_str = '''', confidence = Some 0, word_count = Some 0,
      error = None, image_format = None, image_size = None\<rparr>"
  using extract_text_no_hits [of blank_service "\<lparr>readtext = (\<lambda>a. Inr [])\<rparr>" demo_libs
       "\<lparr>shape = [1, 2], elems = [7, 9]\<rparr>" "\<lparr>shape = [1, 2, 3], elems = [7, 9]\<rparr>" exact_ops]
  by (simp add: demo_libs_def blank_service_def bgr_input_def exact_ops_def OCRResponse_def)

section \<open>The invariant of the result\<close>

lemma extract_text_invariant:
  assumes "extract_text fo L srv img = (r, calls)"
  shows "(success r \<longleftrightarrow> error r = None) \<and> (success r \<or> text_str r = '''')"
  using assms
  by (auto simp: extract_text_def extract_text_try_def aggregate_eq failed_def
        split: sum.splits option.splits)

lemma process_image_invariant_aux:
  assumes "process_image fo L srv contents = (r, calls)"
  shows "(success r \<longleftrightarrow> error r = None) \<and> (success r \<or> text_str r = '''')"
proof (cases "is_healthy srv")
  case False
  with assms show ?thesis by (auto simp: process_image_def failed_def)
next
  case True
  show ?thesis
  proof (cases "process_image_try fo L srv contents")
    case (Pair res cs)
    show ?thesis
    proof (cases res)
      case (Inl e)
      with Pair True assms show ?thesis by (auto simp: process_image_def failed_def)
    next
      case (Inr d)
      with Pair True assms have r: "r = d" by (auto simp: process_image_def)
      from Pair Inr obtain pre d0 cs0 fmt sz
        where "extract_text fo L srv pre = (d0, cs0)"
          and "d = d0\<lparr>image_format := fmt, image_size := sz\<rparr>"
        by (auto simp: process_image_try_def Let_def split: sum.splits prod.splits)
      then show ?thesis using extract_text_invariant [of fo L srv pre d0 cs0] r by auto
    qed
  qed
qed

text \<open>
  C7: for every input, every behaviour of the libraries and every outcome of the engine,
  the dictionary returned by \<open>process_image\<close>, and the \<open>OCRResponse\<close> built
  from it, have \<open>success\<close> true exactly when \<open>error\<close> is absent, and when
  \<open>success\<close> is false the text is empty and \<open>error\<close> is present.
\<close>

theorem process_image_invariant:
  "(success (fst (process_image fo L srv contents)) \<longleftrightarrow>
      error (fst (process_image fo L srv contents)) = None) \<and>
   (\<not> success (fst (process_image fo L srv contents)) \<longrightarrow>
      text_str (fst (process_image fo L srv contents)) = '''' \<and>
      error (fst (process_image fo L srv contents)) \<noteq> None) \<and>
   (success (OCRResponse fo (fst (process_image fo L srv contents))) \<longleftrightarrow>
      error (OCRResponse fo (fst (process_image fo L srv contents))) = None) \<and>
   (\<not> success (OCRResponse fo (fst (process_image fo L srv contents))) \<longrightarrow>
      text_str (OCRResponse fo (fst (process_image fo L srv contents))) = '''' \<and>
      error (OCRResponse fo (fst (process_image fo L srv contents))) \<noteq> None)"
  using process_image_invariant_aux [OF prod.collapse [symmetric], of fo L srv contents]
  by (auto simp: OCRResponse_def)

theorem process_image_invariant_witness:
  "\<not> success (fst (process_image exact_ops demo_libs demo_service [1, 2, 3])) \<and>
   text_str (fst (process_image exact_ops demo_libs demo_service [1, 2, 3])) = '''' \<and>
   error (fst (process_image exact_ops demo_libs demo_service [1, 2, 3])) \<noteq> None"
proof -
  have "\<not> success (fst (process_image exact_ops demo_libs demo_service [1, 2, 3]))"
    by (simp add: process_image_def process_image_try_def is_healthy_def demo_service_def
          demo_libs_def failed_def)
  then show ?thesis
    using process_image_invariant [of exact_ops demo_libs demo_service "[1, 2, 3]"] by simp
qed

section \<open>Preprocessing\<close>

text \<open>
  C8: \<open>preprocess\<close> returns an image for every input array and every behaviour of
  OpenCV, never an exception; when the grayscale conversion fails, or when the median
  filter fails, the image returned is the input array, unmodified.
\<close>

theorem preprocess_never_raises:
  "(\<exists>out. preprocess L img = Inr out) \<and>
   (length (shape img) = 3 \<and> cvtColor L img COLOR_RGB2GRAY = Inl e \<longrightarrow> preprocess L img = Inr img) \<and>
   ((if length (shape img) = 3 then cvtColor L img COLOR_RGB2GRAY else Inr img) = Inr gray \<and>
      medianBlur L gray 3 = Inl e \<longrightarrow> preprocess L img = Inr img)"
  by (auto simp: preprocess_def preprocess_try_def split: sum.splits)

theorem preprocess_never_raises_witness:
  "length (shape \<lparr>shape = [1, 2, 4], elems = [1, 2, 3, 4, 5, 6, 7, 8]\<rparr>) = 3 \<and>
   cvtColor broken_cv \<lparr>shape = [1, 2, 4], elems = [1, 2, 3, 4, 5, 6, 7, 8]\<rparr> COLOR_RGB2GRAY
     = Inl ''Invalid number of channels in input image'' \<and>
   preprocess broken_cv \<lparr>shape = [1, 2, 4], elems = [1, 2, 3, 4, 5, 6, 7, 8]\<rparr>
     = Inr \<lparr>shape = [1, 2, 4], elems = [1, 2, 3, 4, 5, 6, 7, 8]\<rparr> \<and>
   (if length (shape \<lparr>shape = [1, 2], elems = [1, 2]\<rparr>) = 3
    then cvtColor broken_cv \<lparr>shape = [1, 2], elems = [1, 2]\<rparr> COLOR_RGB2GRAY
    else Inr \<lparr>shape = [1, 2], elems = [1, 2]\<rparr>) = Inr \<lparr>shape = [1, 2], elems = [1, 2]\<rparr> \<and>
   medianBlur broken_cv \<lparr>shape = [1, 2], elems = [1, 2]\<rparr> 3 = Inl ''Unsupported format'' \<and>
   preprocess broken_cv \<lparr>shape = [1, 2], elems = [1, 2]\<rparr> = Inr \<lparr>shape = [1, 2], elems = [1, 2]\<rparr>"
  using preprocess_never_raises [where L = broken_cv
          and img = "\<lparr>shape = [1, 2, 4], elems = [1, 2, 3, 4, 5, 6, 7, 8]\<rparr>"
          and e = "''Invalid number of channels in input image''"]
        preprocess_never_raises [where L = broken_cv
          and img = "\<lparr>shape = [1, 2], elems = [1, 2]\<rparr>"
          and gray = "\<lparr>shape = [1, 2], elems = [1, 2]\<rparr>"
          and e = "''Unsupported format''"]
  by (simp add: broken_cv_def demo_libs_def)

section \<open>The endpoint\<close>

text \<open>
  C1, as stated: with the service unavailable \<open>predict\<close> returns the 503 error
  whatever the declared content type. It does not: the content type is checked first, and
  an upload declared \<open>text/plain\<close> is answered with the 400 error.
\<close>

theorem predict_unavailable_counterexample:
  "\<not> is_healthy (\<lparr>reader = None\<rparr> :: rat ocr_service) \<and>
   predict exact_ops demo_libs \<lparr>reader = None\<rparr> \<lparr>content_type = Some ''text/plain'', read = Inr png_bytes\<rparr>
     = (Inl (HTTPException 400 ''File must be a supported image type (PNG, JPG, JPEG)''), [])"
  by (simp add: predict_def is_healthy_def validate_image_content_type_def supported_types_def)

text \<open>
  C1, amended: with the service unavailable \<open>predict\<close> never calls the engine; it
  returns the 503 error when the declared content type is supported, whatever the payload,
  and the 400 error of the content type check otherwise.
\<close>

theorem predict_unavailable:
  assumes "\<not> is_healthy srv"
  shows "predict fo L srv img =
     (if (case content_type img of None \<Rightarrow> False | Some ct \<Rightarrow> validate_image_content_type ct)
      then (Inl (HTTPException 503 ''OCR service temporarily unavailable''), [])
      else (Inl (HTTPException 400 ''File must be a supported image type (PNG, JPG, JPEG)''), []))"
  using assms by (simp add: predict_def)

theorem predict_unavailable_witness:
  "\<not> is_healthy (\<lparr>reader = None\<rparr> :: rat ocr_service) \<and>
   predict exact_ops demo_libs \<lparr>reader = None\<rparr> \<lparr>content_type = Some ''image/png'', read = Inr png_bytes\<rparr>
     = (Inl (HTTPException 503 ''OCR service temporarily unavailable''), [])"
  using predict_unavailable [of "\<lparr>reader = None\<rparr>" exact_ops demo_libs
          "\<lparr>content_type = Some ''image/png'', read = Inr png_bytes\<rparr>"]
  by (simp add: is_healthy_def validate_image_content_type_def supported_types_def)

text \<open>
  C2: the content type check of \<open>predict\<close> returns false exactly when the declared
  type is not a supported one, that is none of the strings that declare PNG
  (\<open>image/png\<close>) or JPEG (\<open>image/jpeg\<close> and its short form \<open>image/jpg\<close>); it
  looks at the declared type only, and \<open>predict\<close> rejects with the 400 error before
  the upload is read or decoded, whatever its bytes and whatever the state of the service.
\<close>

theorem content_type_gate:
  "(validate_image_content_type ct = False \<longleftrightarrow> ct \<notin> {''image/png'', ''image/jpeg'', ''image/jpg''}) \<and>
   (\<not> validate_image_content_type ct \<longrightarrow>
      predict fo L srv \<lparr>content_type = Some ct, read = r\<rparr>
        = (Inl (HTTPException 400 ''File must be a supported image type (PNG, JPG, JPEG)''), []))"
  by (simp add: predict_def validate_image_content_type_def supported_types_def)

theorem content_type_gate_witness:
  "\<not> validate_image_content_type ''image/gif'' \<and>
   predict exact_ops demo_libs demo_service \<lparr>content_type = Some ''image/gif'', read = Inr gif_bytes\<rparr>
     = (Inl (HTTPException 400 ''File must be a supported image type (PNG, JPG, JPEG)''), [])"
  using content_type_gate [of "''image/gif''" exact_ops demo_libs demo_service "Inr gif_bytes"]
  by simp

text \<open>
  C9, as stated: an unexpected failure in \<open>predict\<close> is answered with a 500 whose
  detail is a generic message. It is not: the detail ends with the text of the exception,
  here a path of the server and an address.
\<close>

theorem predict_internal_error_counterexample:
  "fst (predict exact_ops demo_libs demo_service
          \<lparr>content_type = Some ''image/png'', read = Inl ''/var/spool/upload_3f9a: disk quota exceeded''\<rparr>)
     = Inl (HTTPException 500 ''Internal server error: /var/spool/upload_3f9a: disk quota exceeded'') \<and>
   fst (predict exact_ops demo_libs demo_service
          \<lparr>content_type = Some ''image/png'', read = Inl ''connection reset by peer 10.0.3.7''\<rparr>)
     = Inl (HTTPException 500 ''Internal server error: connection reset by peer 10.0.3.7'')"
  by (simp add: predict_def predict_try_def is_healthy_def demo_service_def
        validate_image_content_type_def supported_types_def)

text \<open>
  C9, amended: when reading the upload raises an exception that is not an
  \<open>HTTPException\<close>, \<open>predict\<close> answers with a 500 whose detail is
  \<open>Internal server error: \<close> followed by the message of the exception, and the
  engine is not called.
\<close>

theorem predict_internal_error:
  assumes "content_type img = Some ct" and "validate_image_content_type ct"
    and "is_healthy srv" and "read img = Inl e"
  shows "predict fo L srv img = (Inl (HTTPException 500 (''Internal server error: '' @ e)), [])"
  using assms by (simp add: predict_def predict_try_def)

theorem predict_internal_error_witness:
  "content_type \<lparr>content_type = Some ''image/jpeg'', read = Inl ''stream closed''\<rparr> = Some ''image/jpeg'' \<and>
   validate_image_content_type ''image/jpeg'' \<and> is_healthy demo_service \<and>
   read \<lparr>content_type = Some ''image/jpeg'', read = Inl ''stream closed''\<rparr> = Inl ''stream closed'' \<and>
   predict exact_ops demo_libs demo_service \<lparr>content_type = Some ''image/jpeg'', read = Inl ''stream closed''\<rparr>
     = (Inl (HTTPException 500 ''Internal server error: stream closed''), [])"
  using predict_internal_error [of "\<lparr>content_type = Some ''image/jpeg'', read = Inl ''stream closed''\<rparr>"
          "''image/jpeg''" demo_service "''stream closed''" exact_ops demo_libs]
  by (simp add: validate_image_content_type_def supported_types_def is_healthy_def demo_service_def)

lemma extract_text_calls:
  assumes "is_healthy srv" and "bgr_input L img = Inr bgr"
  shows "snd (extract_text fo L srv img) = [bgr]"
  using assms
  by (auto simp: extract_text_def extract_text_try_def is_healthy_def split: sum.splits)

text \<open>
  C10: \<open>validate_image\<close> accepts every byte sequence that PIL opens and verifies,
  whatever the format PIL reports. So an upload declared \<open>image/png\<close> whose bytes
  are an image of any format passes both checks, \<open>predict\<close> returns what
  \<open>process_image\<close> makes of it, and when the conversions succeed the engine is
  called on it and the result carries the format PIL reported. The concrete input is a
  GIF declared as PNG.
\<close>

theorem any_decodable_image_reaches_recognition:
  assumes "content_type img = Some ''image/png''" and "is_healthy srv"
    and "read img = Inr c" and "validate_file_size c 10"
    and "Image_open L c = Inr pim" and "verify L pim = Inr ()"
  shows "validate_image L c \<and>
     predict fo L srv img =
       (Inr (OCRResponse fo (fst (process_image fo L srv c))), snd (process_image fo L srv c)) \<and>
     ((if mode pim \<noteq> ''RGB'' then convert L pim ''RGB'' else Inr pim) = Inr rgb \<and>
      np_array L rgb = Inr arr \<and> preprocess L arr = Inr pre \<and> bgr_input L pre = Inr bgr \<longrightarrow>
        snd (predict fo L srv img) = [bgr] \<and>
        image_format (fst (process_image fo L srv c)) = format pim)"
proof -
  have v: "validate_image L c"
    using assms(5,6) by (simp add: validate_image_def)
  have p: "predict fo L srv img =
       (Inr (OCRResponse fo (fst (process_image fo L srv c))), snd (process_image fo L srv c))"
    using assms(1-4) v
    by (simp add: predict_def predict_try_def validate_image_content_type_def supported_types_def
          case_prod_beta)
  have "snd (process_image fo L srv c) = [bgr] \<and>
        image_format (fst (process_image fo L srv c)) = format pim"
    if "(if mode pim \<noteq> ''RGB'' then convert L pim ''RGB'' else Inr pim) = Inr rgb"
      and "np_array L rgb = Inr arr" and "preprocess L arr = Inr pre" and "bgr_input L pre = Inr bgr"
    using that assms(2,5) extract_text_calls [OF assms(2) that(4), of fo]
    by (simp add: process_image_def process_image_try_def case_prod_beta)
  with v p show ?thesis by simp
qed

theorem any_decodable_image_reaches_recognition_witness:
  "content_type \<lparr>content_type = Some ''image/png'', read = Inr gif_bytes\<rparr> = Some ''image/png'' \<and>
   is_healthy demo_service \<and>
   read \<lparr>content_type = Some ''image/png'', read = Inr gif_bytes\<rparr> = Inr gif_bytes \<and>
   validate_file_size gif_bytes 10 \<and>
   Image_open demo_libs gif_bytes
     = Inr \<lparr>format = Some ''GIF'', size_px = (12, 1), mode = ''P'', pixels = [7, 9]\<rparr> \<and>
   verify demo_libs \<lparr>format = Some ''GIF'', size_px = (12, 1), mode = ''P'', pixels = [7, 9]\<rparr> = Inr () \<and>
   validate_image demo_libs gif_bytes \<and>
   snd (predict exact_ops demo_libs demo_service \<lparr>content_type = Some ''image/png'', read = Inr gif_bytes\<rparr>)
     = [\<lparr>shape = [1, 12, 3], elems = [7, 9]\<rparr>] \<and>
   image_format (fst (process_image exact_ops demo_libs demo_service gif_bytes)) = Some ''GIF''"
proof -
  let ?up = "\<lparr>content_type = Some ''image/png'', read = Inr gif_bytes\<rparr>"
  let ?pim = "\<lparr>format = Some ''GIF'', size_px = (12, 1), mode = ''P'', pixels = [7, 9]\<rparr>"
  let ?rgb = "\<lparr>format = None, size_px = (12, 1), mode = ''RGB'', pixels = [7, 9]\<rparr>"
  let ?arr = "\<lparr>shape = [1, 12, 3], elems = [7, 9]\<rparr>"
  let ?pre = "\<lparr>shape = [1, 12], elems = [7, 9]\<rparr>"
  have h1: "content_type ?up = Some ''image/png''" by simp
  have h2: "is_healthy demo_service" by (simp add: is_healthy_def demo_service_def)
  have h3: "read ?up = Inr gif_bytes" by simp
  have h4: "validate_file_size gif_bytes 10" by (simp add: validate_file_size_def gif_bytes_def)
  have h5: "Image_open demo_libs gif_bytes = Inr ?pim" by (simp add: demo_libs_def gif_bytes_def)
  have h6: "verify demo_libs ?pim = Inr ()" by (simp add: demo_libs_def)
  have k1: "(if mode ?pim \<noteq> ''RGB'' then convert demo_libs ?pim ''RGB'' else Inr ?pim) = Inr ?rgb"
    by (simp add: demo_libs_def)
  have k2: "np_array demo_libs ?rgb = Inr ?arr" by (simp add: demo_libs_def)
  have k3: "preprocess demo_libs ?arr = Inr ?pre"
    by (simp add: preprocess_def preprocess_try_def demo_libs_def)
  have k4: "bgr_input demo_libs ?pre = Inr ?arr" by (simp add: bgr_input_def demo_libs_def)
  note main = any_decodable_image_reaches_recognition [OF h1 h2 h3 h4 h5 h6, where fo = exact_ops
            and rgb = ?rgb and arr = ?arr and pre = ?pre and bgr = ?arr]
  from main have a: "validate_image demo_libs gif_bytes"
    by (rule conjunct1)
  from main k1 k2 k3 k4
  have b: "snd (predict exact_ops demo_libs demo_service ?up) = [?arr] \<and>
           image_format (fst (process_image exact_ops demo_libs demo_service gif_bytes)) = format ?pim"
    by blast
  from h1 h2 h3 h4 h5 h6 a b show ?thesis by simp
qed

end
